theory Spec2Isabelle
  imports Main "HOL-Library.Sublist" "HOL-Library.AList" "HOL-Library.Word"
begin

section \<open>Common values: bytes, errors, panics\<close>

text \<open>
  Go strings and byte slices are sequences of bytes; both are modelled as \<open>string\<close>
  (a list of 8-bit characters). The backslash and the double quote are named, since
  neither can be written inside a string literal.
\<close>

type_synonym bytes = string

definition backslash :: char where
  "backslash = CHR 0x5C"

definition dquote :: char where
  "dquote = CHR 0x22"

text \<open>
  A Go \<open>error\<close> built by \<open>errors.New(msg)\<close> is the value \<open>New msg\<close>; \<open>err.Error()\<close> is
  \<open>Error err\<close>. Errors coming back from the standard library carry their message the
  same way.
\<close>

datatype error = New (Error: string)

text \<open>
  A run-time panic is a result of its own, next to a normal return.
\<close>

datatype panic =
    IndexOutOfRange
  | SliceBoundsOutOfRange
  | CloseOfNilChannel
  | CloseOfClosedChannel

datatype 'a result = Returns 'a | Panics panic

section \<open>The string functions of the Go library used by the client configuration\<close>

text \<open>
  \<open>strings.Contains(s, substr)\<close>: \<open>substr\<close> occurs somewhere in \<open>s\<close>.
\<close>

fun Contains :: "string \<Rightarrow> string \<Rightarrow> bool" where
  "Contains [] substr = (substr = [])"
| "Contains (c # cs) substr = (prefix substr (c # cs) \<or> Contains cs substr)"

text \<open>
  \<open>strings.Index(s, sep)\<close>: the position of the first occurrence of \<open>sep\<close> in \<open>s\<close>;
  Go's \<open>-1\<close> is \<open>None\<close>.
\<close>

fun Index :: "string \<Rightarrow> string \<Rightarrow> nat option" where
  "Index [] sep = (if sep = [] then Some 0 else None)"
| "Index (c # cs) sep =
     (if prefix sep (c # cs) then Some 0 else map_option Suc (Index cs sep))"

text \<open>
  \<open>strings.Replace(s, old, new, -1)\<close>: every non-overlapping occurrence of \<open>old\<close>, from
  the left, is replaced by \<open>new\<close>. The source calls it with two-byte \<open>old\<close> only; for an
  empty \<open>old\<close> (where Go inserts \<open>new\<close> around every character) this model leaves \<open>s\<close>
  as it is.
\<close>

fun Replace :: "string \<Rightarrow> string \<Rightarrow> string \<Rightarrow> string" where
  "Replace [] old new = []"
| "Replace (c # cs) old new =
     (if old \<noteq> [] \<and> prefix old (c # cs)
      then new @ Replace (drop (length old) (c # cs)) old new
      else c # Replace cs old new)"

text \<open>
  \<open>strings.SplitN(s, sep, n)\<close> for \<open>n \<ge> 0\<close>: at most \<open>n\<close> pieces, the last one the
  unsplit remainder; \<open>n = 0\<close> gives no piece at all. \<open>sep\<close> is not empty in the source.
\<close>

fun SplitN :: "string \<Rightarrow> string \<Rightarrow> nat \<Rightarrow> string list" where
  "SplitN s sep 0 = []"
| "SplitN s sep (Suc 0) = [s]"
| "SplitN s sep (Suc (Suc n)) =
     (case Index s sep of
        None \<Rightarrow> [s]
      | Some m \<Rightarrow> take m s # SplitN (drop (m + length sep) s) sep (Suc n))"

text \<open>
  \<open>strings.Count(s, sep)\<close> counts the non-overlapping occurrences of a non-empty \<open>sep\<close>;
  \<open>strings.Split(s, sep)\<close> is, as in the library, \<open>SplitN\<close> with \<open>Count(s, sep) + 1\<close> pieces.
\<close>

fun Count :: "string \<Rightarrow> string \<Rightarrow> nat" where
  "Count [] sep = 0"
| "Count (c # cs) sep =
     (if sep \<noteq> [] \<and> prefix sep (c # cs)
      then Suc (Count (drop (length sep) (c # cs)) sep)
      else Count cs sep)"

definition Split :: "string \<Rightarrow> string \<Rightarrow> string list" where
  "Split s sep = SplitN s sep (Count s sep + 1)"

section \<open>The single-line configuration form\<close>

text \<open>
  The closure \<open>unescape\<close> of \<open>ssvToJson\<close>: three replacements, in the source's order.
\<close>

definition unescape :: "string \<Rightarrow> string" where
  "unescape s =
     (let r = Replace s [backslash, backslash] [backslash];
          r = Replace r [backslash, CHR ''=''] ''='';
          r = Replace r [backslash, CHR '';''] '';''
      in r)"

text \<open>
  The body of the \<open>for _, ln := range lines\<close> loop of \<open>ssvToJson\<close>, with \<open>ret\<close> threaded
  through. An empty line leaves the loop (\<open>break\<close>); a line without \<open>=\<close> makes \<open>sp\<close> a
  one-element slice, and \<open>sp[1]\<close> panics.
\<close>

fun ssvLines :: "string list \<Rightarrow> bytes \<Rightarrow> bytes result" where
  "ssvLines [] ret = Returns ret"
| "ssvLines (ln # lns) ret =
     (if ln = [] then Returns ret
      else
        (let sp = SplitN ln ''='' 2 in
         if length sp < 2 then Panics IndexOutOfRange
         else
           (let key = sp ! 0; val = sp ! 1 in
            if key = ''TicketTimeHint'' \<or> key = ''NumConn''
            then ssvLines lns (ret @ [dquote] @ key @ [dquote] @ '':'' @ val @ '','')
            else ssvLines lns
                   (ret @ [dquote] @ key @ [dquote] @ '':'' @ [dquote] @ val @ [dquote] @ '',''))))"

text \<open>
  \<open>ssvToJson\<close>: unescape, split at \<open>;\<close>, run the loop from \<open>{\<close>, drop the last byte and
  close with \<open>}\<close>.
\<close>

definition ssvToJson :: "string \<Rightarrow> bytes result" where
  "ssvToJson ssv =
     (let lines = Split (unescape ssv) '';'' in
      case ssvLines lines ''{'' of
        Panics p \<Rightarrow> Panics p
      | Returns ret \<Rightarrow>
          (if ret = [] then Panics SliceBoundsOutOfRange
           else Returns (butlast ret @ ''}'')))"


section \<open>The client state and its configuration\<close>

text \<open>
  \<open>rawConfig\<close> is what \<open>json.Unmarshal\<close> fills. Its fields carry the suffix \<open>_raw\<close>, the
  fields of \<open>State\<close> keep the source's names. Go's \<open>int\<close> fields are \<open>int\<close> here: the code
  copies them and does no arithmetic on them.
\<close>

record rawConfig =
  ServerName_raw :: string
  ProxyMethod_raw :: string
  EncryptionMethod_raw :: string
  UID_raw :: string
  PublicKey_raw :: string
  TicketTimeHint_raw :: int
  BrowserSig_raw :: string
  NumConn_raw :: int

text \<open>
  \<open>State\<close>, with the public key type \<open>'k\<close> left open (\<open>crypto.PublicKey\<close> is an empty
  interface; \<open>None\<close> is its nil). The clock \<open>Now\<close>, the mutex and the key-pair cache are
  left out: \<open>ParseConfig\<close> mentions none of them.
\<close>

record 'k State =
  LocalHost :: string
  LocalPort :: string
  RemoteHost :: string
  RemotePort :: string
  sessionID :: "32 word"
  UID :: bytes
  staticPub :: "'k option"
  ProxyMethod :: string
  EncryptionMethod :: "8 word"
  TicketTimeHint :: int
  ServerName :: string
  BrowserSig :: string
  NumConn :: int

text \<open>
  \<open>InitState\<close> sets the four addresses and leaves every other field at its zero value;
  its clock argument \<open>nowFunc\<close> goes into the field \<open>Now\<close>, which is left out.
\<close>

definition InitState :: "string \<Rightarrow> string \<Rightarrow> string \<Rightarrow> string \<Rightarrow> 'k State" where
  "InitState localHost localPort remoteHost remotePort =
     \<lparr>LocalHost = localHost, LocalPort = localPort,
      RemoteHost = remoteHost, RemotePort = remotePort,
      sessionID = 0, UID = [], staticPub = None,
      ProxyMethod = [], EncryptionMethod = 0, TicketTimeHint = 0,
      ServerName = [], BrowserSig = [], NumConn = 0\<rparr>"

definition SetSessionID :: "32 word \<Rightarrow> 'k State \<Rightarrow> 'k State" where
  "SetSessionID ident sta = sta\<lparr>sessionID := ident\<rparr>"

text \<open>
  What \<open>ParseConfig\<close> calls outside this repository's sources is a parameter: the file
  system (\<open>ioutil.ReadFile\<close>), \<open>json.Unmarshal\<close> into a zero \<open>rawConfig\<close>,
  \<open>base64.StdEncoding.DecodeString\<close>, and \<open>ecdh.Unmarshal\<close> (whose \<open>ok = false\<close> is \<open>None\<close>).
\<close>

record 'k externals =
  ReadFile :: "string \<Rightarrow> error + bytes"
  Unmarshal_json :: "bytes \<Rightarrow> error + rawConfig"
  DecodeString :: "string \<Rightarrow> error + bytes"
  Unmarshal_ecdh :: "bytes \<Rightarrow> 'k option"

text \<open>
  Lines 95 to 103 of \<open>ParseConfig\<close>: where \<open>content\<close> comes from.
\<close>

definition readContent :: "'k externals \<Rightarrow> string \<Rightarrow> (error + bytes) result" where
  "readContent ext conf =
     (if Contains conf '';'' \<and> Contains conf ''=''
      then (case ssvToJson conf of
              Panics p \<Rightarrow> Panics p
            | Returns content \<Rightarrow> Returns (Inr content))
      else Returns (ReadFile ext conf))"

text \<open>
  \<open>ParseConfig\<close>: the returned error (\<open>None\<close> is nil) or the panic, and the state as the
  call leaves it. Every assignment to a field of \<open>sta\<close> is an update of the state passed
  on, in the source's order.
\<close>

definition ParseConfig ::
    "'k externals \<Rightarrow> string \<Rightarrow> 'k State \<Rightarrow> error option result \<times> 'k State" where
  "ParseConfig ext conf sta =
     (case readContent ext conf of
        Panics p \<Rightarrow> (Panics p, sta)
      | Returns (Inl err) \<Rightarrow> (Returns (Some err), sta)
      | Returns (Inr content) \<Rightarrow>
          (case Unmarshal_json ext content of
             Inl err \<Rightarrow> (Returns (Some err), sta)
           | Inr preParse \<Rightarrow>
               (case (if EncryptionMethod_raw preParse = ''plain''
                        then Some (sta\<lparr>EncryptionMethod := 0x00\<rparr>)
                      else if EncryptionMethod_raw preParse = ''aes''
                        then Some (sta\<lparr>EncryptionMethod := 0x01\<rparr>)
                      else if EncryptionMethod_raw preParse = ''chacha20-poly1305''
                        then Some (sta\<lparr>EncryptionMethod := 0x02\<rparr>)
                      else None) of
                  None \<Rightarrow> (Returns (Some (New ''Unknown encryption method'')), sta)
                | Some sta1 \<Rightarrow>
                    (let sta2 = sta1\<lparr>ProxyMethod := ProxyMethod_raw preParse,
                                     ServerName := ServerName_raw preParse,
                                     TicketTimeHint := TicketTimeHint_raw preParse,
                                     BrowserSig := BrowserSig_raw preParse,
                                     NumConn := NumConn_raw preParse\<rparr>
                     in case DecodeString ext (UID_raw preParse) of
                          Inl err \<Rightarrow>
                            (Returns (Some (New (''Failed to parse UID: '' @ Error err))), sta2)
                        | Inr uid \<Rightarrow>
                            (let sta3 = sta2\<lparr>UID := uid\<rparr>
                             in case DecodeString ext (PublicKey_raw preParse) of
                                  Inl err \<Rightarrow>
                                    (Returns (Some (New (''Failed to parse Public key: ''
                                                         @ Error err))), sta3)
                                | Inr pubBytes \<Rightarrow>
                                    (case Unmarshal_ecdh ext pubBytes of
                                       None \<Rightarrow>
                                         (Returns (Some (New ''Failed to unmarshal Public key'')),
                                          sta3)
                                     | Some pub \<Rightarrow>
                                         (Returns None, sta3\<lparr>staticPub := Some pub\<rparr>)))))))"

section \<open>The multiplexer session\<close>

type_synonym u32 = "32 word"
type_synonym Conn = nat


definition errRepeatSessionClosing :: string where
  "errRepeatSessionClosing = ''trying to close a closed session''"


definition closeBacklog :: nat where
  "closeBacklog = 512"

text \<open>
  Modelled from the spec: \<open>Stream\<close> and \<open>makeStream\<close> are not among the sources. The spec's
  Stream has an \<open>id: u32\<close> that identifies it within its Session; that is all the session
  code reads of it. The back-reference to the session is not represented.
\<close>

record Stream =
  id_stream :: u32

definition makeStream :: "u32 \<Rightarrow> Stream" where
  "makeStream ident = \<lparr>id_stream = ident\<rparr>"

text \<open>
  Modelled from the spec: the switchboard and \<open>makeSwitchboard\<close> are not among the
  sources. The spec's Switchboard owns the pool of carrier connections, seeded with the
  first one, and dispatches records onto them; it is given the session only to hand
  inbound frames to it, and writes none of the session's fields.
\<close>

record switchboard =
  conns :: "Conn list"
  dispatched :: "bytes list"

definition makeSwitchboard :: "Conn \<Rightarrow> switchboard" where
  "makeSwitchboard conn = \<lparr>conns = [conn], dispatched = []\<rparr>"

text \<open>
  The channel \<open>die\<close> carries no value and is only ever closed: it is nil (the zero value
  of a channel field), open (made by \<open>make\<close>), or closed. The buffered channels
  \<open>acceptCh\<close> and \<open>closeQCh\<close> are the lists of their pending elements, oldest first.
\<close>

datatype chan = NilChan | OpenChan | ClosedChan

text \<open>
  \<open>Session\<close>. The stream table is an association list with one entry per key. The three
  hooks \<open>obfs\<close>, \<open>deobfs\<close> and \<open>obfsedReader\<close> are function values that no code of the
  session assigns after construction; they and the two mutexes are left out.
\<close>

record Session =
  id_sesh :: int
  nextStreamID :: u32
  streams :: "(u32 \<times> Stream) list"
  sb :: switchboard
  acceptCh :: "Stream list"
  closeQCh :: "u32 list"
  die :: chan
  closing :: bool

text \<open>
  \<open>MakeSession\<close> sets the fields its composite literal names; \<open>die\<close> and \<open>closing\<close> are not
  among them and keep their zero values, the nil channel and \<open>false\<close>.
  Its three hook arguments go into the fields that are left out.
\<close>

definition MakeSession :: "int \<Rightarrow> Conn \<Rightarrow> Session" where
  "MakeSession ident conn =
     \<lparr>id_sesh = ident, nextStreamID = 1, streams = [],
      sb = makeSwitchboard conn,
      acceptCh = [], closeQCh = [],
      die = NilChan, closing = False\<rparr>"

text \<open>
  \<open>OpenStream\<close>: \<open>atomic.AddUint32\<close> stores and returns the incremented counter (32-bit,
  wrapping); the id is that value minus one.
\<close>

definition OpenStream :: "Session \<Rightarrow> (Stream \<times> error option) \<times> Session" where
  "OpenStream sesh =
     (let ident = nextStreamID sesh + 1;
          sesh1 = sesh\<lparr>nextStreamID := ident\<rparr>;
          ident = ident - 1;
          stream = makeStream ident
      in ((stream, None), sesh1\<lparr>streams := AList.update ident stream (streams sesh1)\<rparr>))"


definition delStream :: "u32 \<Rightarrow> Session \<Rightarrow> Session" where
  "delStream ident sesh = sesh\<lparr>streams := AList.delete ident (streams sesh)\<rparr>"

definition isStream :: "Session \<Rightarrow> u32 \<Rightarrow> bool" where
  "isStream sesh ident = (map_of (streams sesh) ident \<noteq> None)"

definition getStream :: "Session \<Rightarrow> u32 \<Rightarrow> Stream option" where
  "getStream sesh ident = map_of (streams sesh) ident"




text \<open>
  The loop of \<open>Close\<close> over the stream table: while an entry is left, take one, start
  \<open>closeNoDelMap\<close> for its stream on a new goroutine (recorded in \<open>spawned\<close>), and delete
  its key. An entry deleted during a Go \<open>range\<close> is not visited again.
\<close>

function closeStreams ::
    "(u32 \<times> Stream) list \<Rightarrow> Stream list \<Rightarrow> Stream list \<times> (u32 \<times> Stream) list" where
  "closeStreams [] spawned = (spawned, [])"
| "closeStreams ((ident, stream) # rest) spawned =
     closeStreams (AList.delete ident ((ident, stream) # rest)) (spawned @ [stream])"
  by pat_completeness auto
termination
  by (relation "measure (\<lambda>(table, spawned). length table)")
     (auto simp: AList.delete_eq less_Suc_eq_le)

text \<open>
  \<open>Close\<close>: the result, the streams whose \<open>closeNoDelMap\<close> was started, and the session.
  \<open>close\<close> of a nil channel and of a closed channel panic; the flag \<open>closing\<close> is set
  before.
\<close>

definition Close :: "Session \<Rightarrow> error option result \<times> Stream list \<times> Session" where
  "Close sesh =
     (if closing sesh then (Returns (Some (New errRepeatSessionClosing)), [], sesh)
      else
        (let sesh1 = sesh\<lparr>closing := True\<rparr> in
         case die sesh1 of
           NilChan \<Rightarrow> (Panics CloseOfNilChannel, [], sesh1)
         | ClosedChan \<Rightarrow> (Panics CloseOfClosedChannel, [], sesh1)
         | OpenChan \<Rightarrow>
             (let sesh2 = sesh1\<lparr>die := ClosedChan\<rparr>;
                  (spawned, table) = closeStreams (streams sesh2) []
              in (Returns None, spawned, sesh2\<lparr>streams := table\<rparr>))))"

text \<open>
  \<open>n\<close> successive calls of \<open>OpenStream\<close>, with the streams they return in call order.
\<close>

fun OpenStreams :: "nat \<Rightarrow> Session \<Rightarrow> Stream list \<times> Session" where
  "OpenStreams 0 sesh = ([], sesh)"
| "OpenStreams (Suc n) sesh =
     (let ((stream, err), sesh1) = OpenStream sesh;
          (rest, sesh2) = OpenStreams n sesh1
      in (stream # rest, sesh2))"

section \<open>The two configuration forms, as the specification words them\<close>








section \<open>Scenarios\<close>

subsection \<open>The escape scenario\<close>

text \<open>
  The input of scenario S7, \<open>Key=a\;b\=c\\d\<close>, and what the specification expects for
  it: one entry, key \<open>Key\<close>, value \<open>a;b=c\d\<close>.
\<close>

definition escape_input :: string where
  "escape_input =
     ''Key=a'' @ [backslash] @ '';b'' @ [backslash] @ ''=c'' @ [backslash, backslash] @ ''d''"

definition escape_expected :: bytes where
  "escape_expected =
     ''{'' @ [dquote] @ ''Key'' @ [dquote] @ '':'' @ [dquote]
       @ ''a;b=c'' @ [backslash] @ ''d'' @ [dquote] @ ''}''"

subsection \<open>The configuration of scenario S1\<close>

definition uid_b64 :: string where
  "uid_b64 = ''AAAAAAAAAAAAAAAAAAAAAA==''"

definition pub_b64 :: string where
  "pub_b64 = ''AAAAAAAAAAAAAAAAAAAAAAAAAAAAAAAAAAAAAAAAAAA=''"


definition scenario_raw :: "string \<Rightarrow> string \<Rightarrow> string \<Rightarrow> rawConfig" where
  "scenario_raw method uid pub =
     \<lparr>ServerName_raw = ''www.example.com'', ProxyMethod_raw = ''shadowsocks'',
      EncryptionMethod_raw = method, UID_raw = uid, PublicKey_raw = pub,
      TicketTimeHint_raw = 3600, BrowserSig_raw = ''chrome'', NumConn_raw = 4\<rparr>"

text \<open>
  Stand-ins for the library in the scenarios: every path holds \<open>file\<close>, every document
  decodes to \<open>parsed\<close>, the two base-64 strings above decode to 16 and to 32 zero bytes
  and nothing else decodes, and a public key is 32 bytes long.
\<close>

definition scenario_ext :: "error + bytes \<Rightarrow> error + rawConfig \<Rightarrow> bytes externals" where
  "scenario_ext file parsed =
     \<lparr>ReadFile = (\<lambda>path. file),
      Unmarshal_json = (\<lambda>content. parsed),
      DecodeString = (\<lambda>s. if s = uid_b64 then Inr (replicate 16 (CHR 0x00))
                           else if s = pub_b64 then Inr (replicate 32 (CHR 0x00))
                           else Inl (New ''illegal base64 data'')),
      Unmarshal_ecdh = (\<lambda>b. if length b = 32 then Some b else None)\<rparr>"

definition scenario_state :: "bytes State" where
  "scenario_state = InitState ''127.0.0.1'' ''1984'' ''203.0.113.1'' ''443''"

subsection \<open>Sessions\<close>




section \<open>Escapes in the single-line form\<close>

text \<open>
  Claim C5. Parsing \<open>Key=a\;b\=c\\d\<close> should give key \<open>Key\<close> the value \<open>a;b=c\d\<close>, the
  escaped \<open>;\<close> and \<open>=\<close> not acting as separators. The code unescapes the whole input before
  it splits at \<open>;\<close> and \<open>=\<close>, so the unescaped separators do split: the result is
  \<open>{"Key":"a","b":"c\d"}\<close>, where \<open>Key\<close> has the value \<open>a\<close> and a second key \<open>b\<close> appears.
\<close>

theorem ssvToJson_escape_splits:
  "ssvToJson escape_input =
     Returns (''{'' @ [dquote] @ ''Key'' @ [dquote] @ '':'' @ [dquote] @ ''a'' @ [dquote] @ '',''
              @ [dquote] @ ''b'' @ [dquote] @ '':'' @ [dquote] @ ''c'' @ [backslash] @ ''d''
              @ [dquote] @ ''}'')
   \<and> ssvToJson escape_input \<noteq> Returns escape_expected"
  by (simp add: ssvToJson_def escape_input_def escape_expected_def unescape_def Split_def
      backslash_def dquote_def numeral_2_eq_2 Let_def)

section \<open>The single-line form and its JSON document\<close>

text \<open>
  On text without a backslash \<open>unescape\<close> is the identity, a join at \<open>;\<close> of pieces
  without \<open>;\<close> splits back into the pieces, and the loop writes one JSON member per
  entry.
\<close>

lemma Contains_char: "Contains s [c] \<longleftrightarrow> c \<in> set s"
  by (induction s) auto


















section \<open>Where the configuration is read from\<close>

lemma readContent_file:
  "\<not> (CHR '';'' \<in> set conf \<and> CHR ''='' \<in> set conf) \<Longrightarrow>
   readContent ext conf = Returns (ReadFile ext conf)"
  by (auto simp add: readContent_def Contains_char)


lemma scenario_readContent:
  "readContent (scenario_ext file parsed) ''ck-client.json'' = Returns file"
  by (simp add: readContent_def scenario_ext_def)

lemma scenario_Unmarshal_json: "Unmarshal_json (scenario_ext file parsed) content = parsed"
  by (simp add: scenario_ext_def)

lemma scenario_raw_sel:
  "ServerName_raw (scenario_raw method uid pub) = ''www.example.com''"
  "ProxyMethod_raw (scenario_raw method uid pub) = ''shadowsocks''"
  "EncryptionMethod_raw (scenario_raw method uid pub) = method"
  "UID_raw (scenario_raw method uid pub) = uid"
  "PublicKey_raw (scenario_raw method uid pub) = pub"
  "TicketTimeHint_raw (scenario_raw method uid pub) = 3600"
  "BrowserSig_raw (scenario_raw method uid pub) = ''chrome''"
  "NumConn_raw (scenario_raw method uid pub) = 4"
  by (simp_all add: scenario_raw_def)


section \<open>The two forms give the same state\<close>






section \<open>The encryption method\<close>

text \<open>
  Claim C7. Once the configuration has been read and decoded, \<open>ParseConfig\<close> stores
  \<open>0x00\<close>, \<open>0x01\<close> or \<open>0x02\<close> in \<open>EncryptionMethod\<close> for the names \<open>plain\<close>, \<open>aes\<close> and
  \<open>chacha20-poly1305\<close>; for every other name it returns the error
  \<open>Unknown encryption method\<close> and leaves the state as it was.
\<close>

theorem ParseConfig_EncryptionMethod:
  assumes "readContent ext conf = Returns (Inr content)"
    and "Unmarshal_json ext content = Inr preParse"
  shows "(EncryptionMethod_raw preParse = ''plain'' \<longrightarrow>
            EncryptionMethod (snd (ParseConfig ext conf sta)) = 0x00)
       \<and> (EncryptionMethod_raw preParse = ''aes'' \<longrightarrow>
            EncryptionMethod (snd (ParseConfig ext conf sta)) = 0x01)
       \<and> (EncryptionMethod_raw preParse = ''chacha20-poly1305'' \<longrightarrow>
            EncryptionMethod (snd (ParseConfig ext conf sta)) = 0x02)
       \<and> (EncryptionMethod_raw preParse \<notin> {''plain'', ''aes'', ''chacha20-poly1305''} \<longrightarrow>
            ParseConfig ext conf sta = (Returns (Some (New ''Unknown encryption method'')), sta))"
  using assms by (simp add: ParseConfig_def Let_def split: sum.splits option.splits)

theorem ParseConfig_EncryptionMethod_witness:
  "EncryptionMethod (snd (ParseConfig
      (scenario_ext (Inr ''{}'') (Inr (scenario_raw ''plain'' uid_b64 pub_b64)))
      ''ck-client.json'' scenario_state)) = 0x00
   \<and> EncryptionMethod (snd (ParseConfig
      (scenario_ext (Inr ''{}'') (Inr (scenario_raw ''aes'' uid_b64 pub_b64)))
      ''ck-client.json'' scenario_state)) = 0x01
   \<and> EncryptionMethod (snd (ParseConfig
      (scenario_ext (Inr ''{}'') (Inr (scenario_raw ''chacha20-poly1305'' uid_b64 pub_b64)))
      ''ck-client.json'' scenario_state)) = 0x02
   \<and> ParseConfig
      (scenario_ext (Inr ''{}'') (Inr (scenario_raw ''blowfish'' uid_b64 pub_b64)))
      ''ck-client.json'' scenario_state
     = (Returns (Some (New ''Unknown encryption method'')), scenario_state)"
proof -
  have inst: "(EncryptionMethod_raw raw = ''plain'' \<longrightarrow>
            EncryptionMethod (snd (ParseConfig (scenario_ext (Inr ''{}'') (Inr raw))
              ''ck-client.json'' scenario_state)) = 0x00)
       \<and> (EncryptionMethod_raw raw = ''aes'' \<longrightarrow>
            EncryptionMethod (snd (ParseConfig (scenario_ext (Inr ''{}'') (Inr raw))
              ''ck-client.json'' scenario_state)) = 0x01)
       \<and> (EncryptionMethod_raw raw = ''chacha20-poly1305'' \<longrightarrow>
            EncryptionMethod (snd (ParseConfig (scenario_ext (Inr ''{}'') (Inr raw))
              ''ck-client.json'' scenario_state)) = 0x02)
       \<and> (EncryptionMethod_raw raw \<notin> {''plain'', ''aes'', ''chacha20-poly1305''} \<longrightarrow>
            ParseConfig (scenario_ext (Inr ''{}'') (Inr raw)) ''ck-client.json'' scenario_state
              = (Returns (Some (New ''Unknown encryption method'')), scenario_state))" for raw
    by (rule ParseConfig_EncryptionMethod [OF scenario_readContent scenario_Unmarshal_json])
  from inst [of "scenario_raw ''plain'' uid_b64 pub_b64"]
  have 1: "EncryptionMethod (snd (ParseConfig
      (scenario_ext (Inr ''{}'') (Inr (scenario_raw ''plain'' uid_b64 pub_b64)))
      ''ck-client.json'' scenario_state)) = 0x00"
    by (simp add: scenario_raw_sel)
  from inst [of "scenario_raw ''aes'' uid_b64 pub_b64"]
  have 2: "EncryptionMethod (snd (ParseConfig
      (scenario_ext (Inr ''{}'') (Inr (scenario_raw ''aes'' uid_b64 pub_b64)))
      ''ck-client.json'' scenario_state)) = 0x01"
    by (simp add: scenario_raw_sel)
  from inst [of "scenario_raw ''chacha20-poly1305'' uid_b64 pub_b64"]
  have 3: "EncryptionMethod (snd (ParseConfig
      (scenario_ext (Inr ''{}'') (Inr (scenario_raw ''chacha20-poly1305'' uid_b64 pub_b64)))
      ''ck-client.json'' scenario_state)) = 0x02"
    by (simp add: scenario_raw_sel)
  from inst [of "scenario_raw ''blowfish'' uid_b64 pub_b64"]
  have 4: "ParseConfig
      (scenario_ext (Inr ''{}'') (Inr (scenario_raw ''blowfish'' uid_b64 pub_b64)))
      ''ck-client.json'' scenario_state
     = (Returns (Some (New ''Unknown encryption method'')), scenario_state)"
    by (simp add: scenario_raw_sel)
  from 1 2 3 4 show ?thesis by (simp only: simp_thms)
qed

section \<open>Failures of ParseConfig\<close>

text \<open>
  Claim C9. \<open>ParseConfig\<close> is not atomic on error. If it fails while reading the file,
  while decoding the JSON or on an unknown encryption method, the state is unchanged. If
  it fails later, on the base-64 of \<open>UID\<close> or of \<open>PublicKey\<close> or on unmarshalling the public
  key, it returns an error with \<open>EncryptionMethod\<close>, \<open>ProxyMethod\<close>, \<open>ServerName\<close>,
  \<open>TicketTimeHint\<close>, \<open>BrowserSig\<close> and \<open>NumConn\<close> already overwritten by the new
  configuration's values.
\<close>

theorem ParseConfig_not_atomic:
  "(readContent ext conf = Returns (Inl err) \<longrightarrow>
      ParseConfig ext conf sta = (Returns (Some err), sta))
   \<and> (readContent ext conf = Returns (Inr content) \<and> Unmarshal_json ext content = Inl err \<longrightarrow>
      ParseConfig ext conf sta = (Returns (Some err), sta))
   \<and> (readContent ext conf = Returns (Inr content) \<and> Unmarshal_json ext content = Inr preParse
      \<and> EncryptionMethod_raw preParse \<notin> {''plain'', ''aes'', ''chacha20-poly1305''} \<longrightarrow>
      ParseConfig ext conf sta = (Returns (Some (New ''Unknown encryption method'')), sta))
   \<and> (readContent ext conf = Returns (Inr content) \<and> Unmarshal_json ext content = Inr preParse
      \<and> EncryptionMethod_raw preParse \<in> {''plain'', ''aes'', ''chacha20-poly1305''}
      \<and> (DecodeString ext (UID_raw preParse) = Inl err
         \<or> DecodeString ext (PublicKey_raw preParse) = Inl err
         \<or> (DecodeString ext (PublicKey_raw preParse) = Inr pubBytes
            \<and> Unmarshal_ecdh ext pubBytes = None)) \<longrightarrow>
      (\<exists>e. fst (ParseConfig ext conf sta) = Returns (Some e))
      \<and> EncryptionMethod (snd (ParseConfig ext conf sta)) =
           (if EncryptionMethod_raw preParse = ''plain'' then 0x00
            else if EncryptionMethod_raw preParse = ''aes'' then 0x01 else 0x02)
      \<and> ProxyMethod (snd (ParseConfig ext conf sta)) = ProxyMethod_raw preParse
      \<and> ServerName (snd (ParseConfig ext conf sta)) = ServerName_raw preParse
      \<and> TicketTimeHint (snd (ParseConfig ext conf sta)) = TicketTimeHint_raw preParse
      \<and> BrowserSig (snd (ParseConfig ext conf sta)) = BrowserSig_raw preParse
      \<and> NumConn (snd (ParseConfig ext conf sta)) = NumConn_raw preParse)"
proof (intro conjI impI)
  assume "readContent ext conf = Returns (Inl err)"
  then show "ParseConfig ext conf sta = (Returns (Some err), sta)"
    by (simp add: ParseConfig_def)
next
  assume "readContent ext conf = Returns (Inr content) \<and> Unmarshal_json ext content = Inl err"
  then show "ParseConfig ext conf sta = (Returns (Some err), sta)"
    by (simp add: ParseConfig_def)
next
  assume "readContent ext conf = Returns (Inr content) \<and> Unmarshal_json ext content = Inr preParse
      \<and> EncryptionMethod_raw preParse \<notin> {''plain'', ''aes'', ''chacha20-poly1305''}"
  then show "ParseConfig ext conf sta = (Returns (Some (New ''Unknown encryption method'')), sta)"
    by (simp add: ParseConfig_def)
next
  assume a: "readContent ext conf = Returns (Inr content) \<and> Unmarshal_json ext content = Inr preParse
      \<and> EncryptionMethod_raw preParse \<in> {''plain'', ''aes'', ''chacha20-poly1305''}
      \<and> (DecodeString ext (UID_raw preParse) = Inl err
         \<or> DecodeString ext (PublicKey_raw preParse) = Inl err
         \<or> (DecodeString ext (PublicKey_raw preParse) = Inr pubBytes
            \<and> Unmarshal_ecdh ext pubBytes = None))"
  then show "\<exists>e. fst (ParseConfig ext conf sta) = Returns (Some e)"
    by (auto simp add: ParseConfig_def Let_def split: sum.splits option.splits)
  from a show "EncryptionMethod (snd (ParseConfig ext conf sta)) =
           (if EncryptionMethod_raw preParse = ''plain'' then 0x00
            else if EncryptionMethod_raw preParse = ''aes'' then 0x01 else 0x02)"
    by (auto simp add: ParseConfig_def Let_def split: sum.splits option.splits)
  from a show "ProxyMethod (snd (ParseConfig ext conf sta)) = ProxyMethod_raw preParse"
    by (auto simp add: ParseConfig_def Let_def split: sum.splits option.splits)
  from a show "ServerName (snd (ParseConfig ext conf sta)) = ServerName_raw preParse"
    by (auto simp add: ParseConfig_def Let_def split: sum.splits option.splits)
  from a show "TicketTimeHint (snd (ParseConfig ext conf sta)) = TicketTimeHint_raw preParse"
    by (auto simp add: ParseConfig_def Let_def split: sum.splits option.splits)
  from a show "BrowserSig (snd (ParseConfig ext conf sta)) = BrowserSig_raw preParse"
    by (auto simp add: ParseConfig_def Let_def split: sum.splits option.splits)
  from a show "NumConn (snd (ParseConfig ext conf sta)) = NumConn_raw preParse"
    by (auto simp add: ParseConfig_def Let_def split: sum.splits option.splits)
qed

theorem ParseConfig_not_atomic_witness:
  "ParseConfig (scenario_ext (Inl (New ''no such file or directory''))
                  (Inr (scenario_raw ''aes'' uid_b64 pub_b64)))
     ''ck-client.json'' scenario_state
     = (Returns (Some (New ''no such file or directory'')), scenario_state)
   \<and> ParseConfig (scenario_ext (Inr ''{'') (Inl (New ''unexpected end of JSON input'')))
     ''ck-client.json'' scenario_state
     = (Returns (Some (New ''unexpected end of JSON input'')), scenario_state)
   \<and> ParseConfig (scenario_ext (Inr ''{}'') (Inr (scenario_raw ''blowfish'' uid_b64 pub_b64)))
     ''ck-client.json'' scenario_state
     = (Returns (Some (New ''Unknown encryption method'')), scenario_state)
   \<and> ServerName (snd (ParseConfig
        (scenario_ext (Inr ''{}'') (Inr (scenario_raw ''aes'' ''?'' pub_b64)))
        ''ck-client.json'' scenario_state)) = ''www.example.com''
   \<and> NumConn (snd (ParseConfig
        (scenario_ext (Inr ''{}'') (Inr (scenario_raw ''aes'' uid_b64 ''?'')))
        ''ck-client.json'' scenario_state)) = 4
   \<and> EncryptionMethod (snd (ParseConfig
        (scenario_ext (Inr ''{}'') (Inr (scenario_raw ''aes'' uid_b64 uid_b64)))
        ''ck-client.json'' scenario_state)) = 0x01
   \<and> ServerName scenario_state = [] \<and> NumConn scenario_state = 0
   \<and> EncryptionMethod scenario_state = 0x00"
proof -
  have dec: "DecodeString (scenario_ext f p) ''?'' = Inl (New ''illegal base64 data'')"
    "DecodeString (scenario_ext f p) uid_b64 = Inr (replicate 16 (CHR 0x00))"
    "Unmarshal_ecdh (scenario_ext f p) (replicate 16 (CHR 0x00)) = None" for f p
    by (simp_all add: scenario_ext_def uid_b64_def pub_b64_def)
  have 1: "ParseConfig (scenario_ext (Inl (New ''no such file or directory''))
                  (Inr (scenario_raw ''aes'' uid_b64 pub_b64)))
     ''ck-client.json'' scenario_state
     = (Returns (Some (New ''no such file or directory'')), scenario_state)"
    by (rule ParseConfig_not_atomic [THEN conjunct1, THEN mp, OF scenario_readContent])
  have 2: "ParseConfig (scenario_ext (Inr ''{'') (Inl (New ''unexpected end of JSON input'')))
     ''ck-client.json'' scenario_state
     = (Returns (Some (New ''unexpected end of JSON input'')), scenario_state)"
    by (rule ParseConfig_not_atomic [THEN conjunct2, THEN conjunct1, THEN mp,
          OF conjI [OF scenario_readContent scenario_Unmarshal_json]])
  have 3: "ParseConfig (scenario_ext (Inr ''{}'') (Inr (scenario_raw ''blowfish'' uid_b64 pub_b64)))
     ''ck-client.json'' scenario_state
     = (Returns (Some (New ''Unknown encryption method'')), scenario_state)"
    using ParseConfig_not_atomic [where content = "''{}''"
        and preParse = "scenario_raw ''blowfish'' uid_b64 pub_b64",
        THEN conjunct2, THEN conjunct2, THEN conjunct1, THEN mp,
        OF conjI [OF scenario_readContent conjI [OF scenario_Unmarshal_json]]]
    by (simp add: scenario_raw_sel)
  have 4: "ServerName (snd (ParseConfig
        (scenario_ext (Inr ''{}'') (Inr (scenario_raw ''aes'' ''?'' pub_b64)))
        ''ck-client.json'' scenario_state)) = ''www.example.com''"
    using ParseConfig_not_atomic [where ext = "scenario_ext (Inr ''{}'') (Inr (scenario_raw ''aes'' ''?'' pub_b64))"
        and conf = "''ck-client.json''" and content = "''{}''"
        and preParse = "scenario_raw ''aes'' ''?'' pub_b64"
        and err = "New ''illegal base64 data''" and sta = scenario_state,
        THEN conjunct2, THEN conjunct2, THEN conjunct2, THEN mp]
    by (simp add: scenario_readContent scenario_Unmarshal_json scenario_raw_sel dec)
  have 5: "NumConn (snd (ParseConfig
        (scenario_ext (Inr ''{}'') (Inr (scenario_raw ''aes'' uid_b64 ''?'')))
        ''ck-client.json'' scenario_state)) = 4"
    using ParseConfig_not_atomic [where ext = "scenario_ext (Inr ''{}'') (Inr (scenario_raw ''aes'' uid_b64 ''?''))"
        and conf = "''ck-client.json''" and content = "''{}''"
        and preParse = "scenario_raw ''aes'' uid_b64 ''?''"
        and err = "New ''illegal base64 data''" and sta = scenario_state,
        THEN conjunct2, THEN conjunct2, THEN conjunct2, THEN mp]
    by (simp add: scenario_readContent scenario_Unmarshal_json scenario_raw_sel dec)
  have 6: "EncryptionMethod (snd (ParseConfig
        (scenario_ext (Inr ''{}'') (Inr (scenario_raw ''aes'' uid_b64 uid_b64)))
        ''ck-client.json'' scenario_state)) = 0x01"
    using ParseConfig_not_atomic [where ext = "scenario_ext (Inr ''{}'') (Inr (scenario_raw ''aes'' uid_b64 uid_b64))"
        and conf = "''ck-client.json''" and content = "''{}''"
        and preParse = "scenario_raw ''aes'' uid_b64 uid_b64"
        and pubBytes = "replicate 16 (CHR 0x00)" and sta = scenario_state,
        THEN conjunct2, THEN conjunct2, THEN conjunct2, THEN mp]
    by (simp add: scenario_readContent scenario_Unmarshal_json scenario_raw_sel dec)
  have 7: "ServerName scenario_state = [] \<and> NumConn scenario_state = 0
      \<and> EncryptionMethod scenario_state = 0x00"
    by (simp add: scenario_state_def InitState_def)
  from 1 2 3 4 5 6 7 show ?thesis by (simp only: simp_thms)
qed

section \<open>Opening streams\<close>

lemma OpenStream_eq:
  "OpenStream sesh =
     ((makeStream (nextStreamID sesh), None),
      sesh\<lparr>nextStreamID := nextStreamID sesh + 1,
            streams := AList.update (nextStreamID sesh) (makeStream (nextStreamID sesh))
                         (streams sesh)\<rparr>)"
  by (simp add: OpenStream_def Let_def)


lemma OpenStreams_Suc:
  "fst (OpenStreams (Suc n) sesh) =
     fst (fst (OpenStream sesh)) # fst (OpenStreams n (snd (OpenStream sesh)))"
  by (cases "OpenStream sesh"; cases "OpenStreams n (snd (OpenStream sesh))") auto

lemma OpenStreams_ids:
  "map id_stream (fst (OpenStreams n sesh)) = map (\<lambda>k. nextStreamID sesh + of_nat k) [0..<n]"
proof (induction n arbitrary: sesh)
  case 0
  show ?case by simp
next
  case (Suc n)
  have "map id_stream (fst (OpenStreams (Suc n) sesh))
          = nextStreamID sesh # map (\<lambda>k. nextStreamID sesh + 1 + of_nat k) [0..<n]"
    using Suc [of "snd (OpenStream sesh)"]
    by (simp only: OpenStreams_Suc) (simp add: OpenStream_eq makeStream_def)
  also have "\<dots> = map (\<lambda>k. nextStreamID sesh + of_nat k) [0..<Suc n]"
    by (simp add: upt_conv_Cons map_Suc_upt [symmetric] del: upt_Suc add: ac_simps)
  finally show ?case .
qed

lemma OpenStreams_length: "length (fst (OpenStreams n sesh)) = n"
  using arg_cong [OF OpenStreams_ids [of n sesh], of length] by simp

lemma unat_fresh_ids:
  assumes "n < 2 ^ 32"
  shows "map (\<lambda>k. unat (1 + of_nat k :: u32)) [0..<n] = [1..<Suc n]"
proof -
  have "map (\<lambda>k. unat (1 + of_nat k :: u32)) [0..<n] = map Suc [0..<n]"
  proof (rule map_cong [OF refl])
    fix k assume "k \<in> set [0..<n]"
    then have "Suc k < 2 ^ 32" using assms by simp
    then show "unat (1 + of_nat k :: u32) = Suc k"
      by (simp add: unat_word_ariths unat_of_nat)
  qed
  also have "\<dots> = [1..<Suc n]" by (simp only: map_Suc_upt) simp
  finally show ?thesis .
qed

text \<open>
  Claim C3, amended. For every \<open>n < 2^32\<close>, the ids returned by \<open>n\<close> successive calls of
  \<open>OpenStream\<close> on a session fresh from \<open>MakeSession\<close> are exactly \<open>1, 2, ..., n\<close>; they are
  strictly increasing and pairwise distinct.
\<close>

theorem OpenStreams_fresh_ids:
  assumes "n < 2 ^ 32"
  shows "map (unat \<circ> id_stream) (fst (OpenStreams n (MakeSession ident conn))) = [1..<Suc n]
       \<and> sorted_wrt (<) (map (unat \<circ> id_stream) (fst (OpenStreams n (MakeSession ident conn))))
       \<and> distinct (map id_stream (fst (OpenStreams n (MakeSession ident conn))))"
proof -
  let ?ids = "map id_stream (fst (OpenStreams n (MakeSession ident conn)))"
  have "map (unat \<circ> id_stream) (fst (OpenStreams n (MakeSession ident conn))) = map unat ?ids"
    by simp
  also have "\<dots> = map (\<lambda>k. unat (1 + of_nat k :: u32)) [0..<n]"
    by (simp only: OpenStreams_ids) (simp add: MakeSession_def)
  also have "\<dots> = [1..<Suc n]" using assms by (rule unat_fresh_ids)
  finally have eq: "map (unat \<circ> id_stream) (fst (OpenStreams n (MakeSession ident conn)))
                      = [1..<Suc n]" .
  have "distinct (map unat ?ids)" using eq by (simp only: map_map distinct_upt)
  then have "distinct ?ids" by (simp only: distinct_map)
  moreover have "sorted_wrt (<) [1..<Suc n]" by (rule sorted_wrt_upt)
  ultimately show ?thesis using eq by (simp only: simp_thms)
qed

theorem OpenStreams_fresh_ids_witness:
  "Suc (Suc (Suc 0)) < 2 ^ 32
   \<and> map (unat \<circ> id_stream) (fst (OpenStreams (Suc (Suc (Suc 0))) (MakeSession 1 0)))
       = [1, 2, 3]"
proof -
  have lt: "Suc (Suc (Suc 0)) < 2 ^ 32" by simp
  have "[1..<Suc (Suc (Suc (Suc 0)))] = [1, 2, 3]" by (simp add: upt_conv_Cons)
  with OpenStreams_fresh_ids [OF lt, of 1 0] lt show ?thesis by (simp only: simp_thms)
qed

text \<open>
  Claim C3 as stated, for every \<open>n\<close>, fails at \<open>n = 2^32\<close>: the counter is a \<open>uint32\<close>, and
  the last of \<open>2^32\<close> calls returns the id \<open>0\<close>, not \<open>2^32\<close>.
\<close>

theorem OpenStreams_wrap:
  "map (unat \<circ> id_stream) (fst (OpenStreams (2 ^ 32) (MakeSession 0 0))) \<noteq> [1..<Suc (2 ^ 32)]"
proof
  assume eq: "map (unat \<circ> id_stream) (fst (OpenStreams (2 ^ 32) (MakeSession 0 0)))
                = [1..<Suc (2 ^ 32)]"
  let ?n = "2 ^ 32 - 1 :: nat"
  have lt: "?n < 2 ^ 32" by simp
  have "map id_stream (fst (OpenStreams (2 ^ 32) (MakeSession 0 0))) ! ?n
          = (map (\<lambda>k. nextStreamID (MakeSession 0 0) + of_nat k) [0..<2 ^ 32]) ! ?n"
    by (simp only: OpenStreams_ids)
  also have "\<dots> = 1 + of_nat ?n"
    using lt by (simp only: nth_map length_upt nth_upt) (simp add: MakeSession_def)
  also have "\<dots> = (0 :: u32)" by simp
  finally have z: "map id_stream (fst (OpenStreams (2 ^ 32) (MakeSession 0 0))) ! ?n = 0" .
  have len: "?n < length (fst (OpenStreams (2 ^ 32) (MakeSession 0 0)))"
    by (simp only: OpenStreams_length) simp
  have "map (unat \<circ> id_stream) (fst (OpenStreams (2 ^ 32) (MakeSession 0 0))) ! ?n = 0"
    using z len by (simp only: nth_map length_map comp_apply) simp
  moreover have "[1..<Suc (2 ^ 32)] ! ?n = 2 ^ 32"
    using lt by (subst nth_upt) simp_all
  ultimately show False using eq by simp
qed

section \<open>Closing a session\<close>

text \<open>
  The loop of \<open>Close\<close> empties the table and starts \<open>closeNoDelMap\<close> once for each entry.
  On a session whose \<open>die\<close> channel has been made, the first \<open>Close\<close> returns nil with
  \<open>closing\<close> set, \<open>die\<close> closed and the table empty, and every later \<open>Close\<close> returns the
  error \<open>trying to close a closed session\<close>.
\<close>

lemma closeStreams_table: "snd (closeStreams table spawned) = []"
  by (induction table spawned rule: closeStreams.induct) simp_all

lemma delete_fresh: "k \<notin> fst ` set table \<Longrightarrow> AList.delete k table = table"
  by (induction table) (auto simp: AList.delete_eq)

lemma closeStreams_spawned:
  "distinct (map fst table) \<Longrightarrow> fst (closeStreams table spawned) = spawned @ map snd table"
proof (induction table spawned rule: closeStreams.induct)
  case (1 spawned)
  show ?case by simp
next
  case (2 ident stream rest spawned)
  then have "AList.delete ident ((ident, stream) # rest) = rest"
    by (simp add: delete_fresh)
  with 2 show ?case by simp
qed

lemma Close_open:
  assumes "\<not> closing sesh" and "die sesh = OpenChan"
  shows "Close sesh = (Returns None, fst (closeStreams (streams sesh) []),
                 sesh\<lparr>closing := True, die := ClosedChan, streams := []\<rparr>)"
proof (cases "closeStreams (streams sesh) []")
  case (Pair spawned table)
  with closeStreams_table [of "streams sesh" "[]"] have "table = []" by simp
  with Pair assms show ?thesis by (simp add: Close_def)
qed

lemma Close_repeat:
  "closing sesh \<Longrightarrow> Close sesh = (Returns (Some (New errRepeatSessionClosing)), [], sesh)"
  by (simp add: Close_def)

lemma Close_sets_closing: "closing (snd (snd (Close sesh)))"
  by (cases "closeStreams (streams sesh) []")
     (simp add: Close_def Let_def split: chan.splits)

text \<open>
  Claim C1. The first \<open>Close\<close> should return nil after setting \<open>closing\<close>, raising \<open>die\<close>
  and emptying the stream table. On a session as \<open>MakeSession\<close> builds it, \<open>die\<close> is the nil
  channel, which \<open>MakeSession\<close> never makes: \<open>Close\<close> sets \<open>closing\<close> and then panics in
  \<open>close(sesh.die)\<close>. It returns no nil, and \<open>die\<close> is not closed.
\<close>

theorem Close_fresh_session_panics:
  "Close (MakeSession ident conn) =
     (Panics CloseOfNilChannel, [], (MakeSession ident conn)\<lparr>closing := True\<rparr>)
   \<and> fst (Close (MakeSession ident conn)) \<noteq> Returns None
   \<and> die (snd (snd (Close (MakeSession ident conn)))) \<noteq> ClosedChan"
  by (simp add: Close_def MakeSession_def)

section \<open>Accepting streams\<close>





section \<open>A full accept queue\<close>






end
